theory Spec2Isabelle
  imports Complex_Main
begin

section \<open>Values and exceptions of the Python runtime\<close>

text \<open>
  Both handlers of \<^verbatim>\<open>endpoints.py\<close> work on whatever \<^verbatim>\<open>request.get_json()\<close>
  hands them, so the model starts with the values a parsed JSON document can be. A
  Python \<^verbatim>\<open>dict\<close> is an association list; the keys of a parsed object are distinct,
  so the order of a lookup is immaterial. A finite Python \<^verbatim>\<open>float\<close> is modelled
  by the real number it denotes: the comparisons and the rounding used below are
  functions of that exact value.
\<close>

datatype json =
    JNull
  | JBool bool
  | JInt int
  | JFloat real
  | JStr string
  | JArr "json list"
  | JObj "(string \<times> json) list"

text \<open>
  Exceptions, by the classes the \<^verbatim>\<open>except\<close> clauses of the handlers tell apart
  and the builtin errors the handlers' own operations raise. Each carries \<^verbatim>\<open>str(e)\<close>.
\<close>

datatype exn =
    Timeout string
  | RequestException string
  | JSONDecodeError string
  | TypeError string
  | KeyError string
  | IndexError string
  | AttributeError string
  | HTTPException string

fun str_exn :: "exn \<Rightarrow> string" where
  "str_exn (Timeout m) = m"
| "str_exn (RequestException m) = m"
| "str_exn (JSONDecodeError m) = m"
| "str_exn (TypeError m) = m"
| "str_exn (KeyError m) = m"
| "str_exn (IndexError m) = m"
| "str_exn (AttributeError m) = m"
| "str_exn (HTTPException m) = m"

definition quoted :: "string \<Rightarrow> string" where
  "quoted s = CHR 0x27 # s @ [CHR 0x27]"

fun type_name :: "json \<Rightarrow> string" where
  "type_name JNull = ''NoneType''"
| "type_name (JBool b) = ''bool''"
| "type_name (JInt i) = ''int''"
| "type_name (JFloat x) = ''float''"
| "type_name (JStr s) = ''str''"
| "type_name (JArr xs) = ''list''"
| "type_name (JObj kvs) = ''dict''"

text \<open>Truth value of an object, as \<^verbatim>\<open>not data\<close> and \<^verbatim>\<open>and\<close> test it.\<close>

fun truthy :: "json \<Rightarrow> bool" where
  "truthy JNull = False"
| "truthy (JBool b) = b"
| "truthy (JInt i) = (i \<noteq> 0)"
| "truthy (JFloat x) = (x \<noteq> 0)"
| "truthy (JStr s) = (s \<noteq> [])"
| "truthy (JArr xs) = (xs \<noteq> [])"
| "truthy (JObj kvs) = (kvs \<noteq> [])"

fun is_substring :: "string \<Rightarrow> string \<Rightarrow> bool" where
  "is_substring sub [] = (sub = [])"
| "is_substring sub (c # cs) = (take (length sub) (c # cs) = sub \<or> is_substring sub cs)"

text \<open>\<^verbatim>\<open>key in obj\<close> for a string key: membership in a dict's keys, in a list's
  elements, substring test on a string, \<^verbatim>\<open>TypeError\<close> on anything else.\<close>

fun py_in :: "string \<Rightarrow> json \<Rightarrow> exn + bool" where
  "py_in k (JObj kvs) = Inr (map_of kvs k \<noteq> None)"
| "py_in k (JArr xs) = Inr (JStr k \<in> set xs)"
| "py_in k (JStr s) = Inr (is_substring k s)"
| "py_in k v = Inl (TypeError (''argument of type '' @ quoted (type_name v) @ '' is not iterable''))"

text \<open>\<^verbatim>\<open>obj[key]\<close> for a string key.\<close>

fun py_getitem :: "json \<Rightarrow> string \<Rightarrow> exn + json" where
  "py_getitem (JObj kvs) k =
     (case map_of kvs k of Some v \<Rightarrow> Inr v | None \<Rightarrow> Inl (KeyError (quoted k)))"
| "py_getitem (JArr xs) k = Inl (TypeError ''list indices must be integers or slices, not str'')"
| "py_getitem (JStr s) k = Inl (TypeError (''string indices must be integers, not '' @ quoted ''str''))"
| "py_getitem v k = Inl (TypeError (quoted (type_name v) @ '' object is not subscriptable''))"

text \<open>\<^verbatim>\<open>obj[0]\<close>. A parsed object has string keys only, so \<^verbatim>\<open>0\<close> is never
  among them.\<close>

fun py_getitem0 :: "json \<Rightarrow> exn + json" where
  "py_getitem0 (JArr xs) =
     (case xs of [] \<Rightarrow> Inl (IndexError ''list index out of range'') | x # _ \<Rightarrow> Inr x)"
| "py_getitem0 (JStr s) =
     (case s of [] \<Rightarrow> Inl (IndexError ''string index out of range'') | c # _ \<Rightarrow> Inr (JStr [c]))"
| "py_getitem0 (JObj kvs) = Inl (KeyError ''0'')"
| "py_getitem0 v = Inl (TypeError (quoted (type_name v) @ '' object is not subscriptable''))"

text \<open>\<^verbatim>\<open>obj.get(key, default)\<close>: only a dict has the method.\<close>

fun py_get :: "json \<Rightarrow> string \<Rightarrow> json \<Rightarrow> exn + json" where
  "py_get (JObj kvs) k d = Inr (case map_of kvs k of Some v \<Rightarrow> v | None \<Rightarrow> d)"
| "py_get v k d =
     Inl (AttributeError (quoted (type_name v) @ '' object has no attribute '' @ quoted ''get''))"

fun py_len :: "json \<Rightarrow> exn + nat" where
  "py_len (JArr xs) = Inr (length xs)"
| "py_len (JStr s) = Inr (length s)"
| "py_len (JObj kvs) = Inr (length kvs)"
| "py_len v = Inl (TypeError (''object of type '' @ quoted (type_name v) @ '' has no len()''))"

text \<open>What a Flask view returns: a status code and a JSON body
  (\<^verbatim>\<open>jsonify(...)\<close> alone is status 200).\<close>

datatype reply = Reply (status: nat) (body: json)

section \<open>The sentiment endpoint\<close>

text \<open>
  The emoji are written as their UTF-8 bytes: U+1F60A, U+1F642, U+1F622, U+1F615 and
  U+1F610.
\<close>

definition emoji_happy :: string where
  "emoji_happy = [CHR 0xF0, CHR 0x9F, CHR 0x98, CHR 0x8A]"

definition emoji_slightly_positive :: string where
  "emoji_slightly_positive = [CHR 0xF0, CHR 0x9F, CHR 0x99, CHR 0x82]"

definition emoji_sad :: string where
  "emoji_sad = [CHR 0xF0, CHR 0x9F, CHR 0x98, CHR 0xA2]"

definition emoji_slightly_negative :: string where
  "emoji_slightly_negative = [CHR 0xF0, CHR 0x9F, CHR 0x98, CHR 0x95]"

definition emoji_neutral :: string where
  "emoji_neutral = [CHR 0xF0, CHR 0x9F, CHR 0x98, CHR 0x90]"

text \<open>The \<^verbatim>\<open>if\<close>/\<^verbatim>\<open>elif\<close> chain of \<^verbatim>\<open>analyze_sentiment\<close>, giving
  \<^verbatim>\<open>(emoji, mood, color)\<close>.\<close>

definition mood_bucket :: "real \<Rightarrow> string \<times> string \<times> string" where
  "mood_bucket polarity =
     (if polarity > 0.3 then (emoji_happy, ''Happy'', ''#10b981'')
      else if polarity > 0 then (emoji_slightly_positive, ''Slightly Positive'', ''#84cc16'')
      else if polarity < - 0.3 then (emoji_sad, ''Sad'', ''#ef4444'')
      else if polarity < 0 then (emoji_slightly_negative, ''Slightly Negative'', ''#f97316'')
      else (emoji_neutral, ''Neutral'', ''#6b7280''))"

text \<open>
  \<^verbatim>\<open>round(x, 2)\<close> on a float: the two-digit decimal nearest to the exact value of
  \<open>x\<close>, an exact tie going to the even last digit. (The result is the float nearest
  to that decimal, and \<^verbatim>\<open>jsonify\<close> prints it as that decimal; the model keeps the
  decimal.)
\<close>

definition py_round2 :: "real \<Rightarrow> real" where
  "py_round2 x =
     (let y = x * 100; f = \<lfloor>y\<rfloor>
      in if y - of_int f < 1 / 2 then of_int f / 100
         else if y - of_int f > 1 / 2 then of_int (f + 1) / 100
         else if even f then of_int f / 100
         else of_int (f + 1) / 100)"

definition no_text_provided :: reply where
  "no_text_provided = Reply 400 (JObj [(''error'', JStr ''No text provided'')])"

definition analysis_result :: "real \<Rightarrow> real \<Rightarrow> reply" where
  "analysis_result polarity subjectivity =
     (case mood_bucket polarity of (emoji, mood, color) \<Rightarrow>
        Reply 200 (JObj [(''emoji'', JStr emoji),
                         (''mood'', JStr mood),
                         (''polarity'', JFloat (py_round2 polarity)),
                         (''subjectivity'', JFloat (py_round2 subjectivity)),
                         (''color'', JStr color),
                         (''status'', JStr ''success'')]))"

text \<open>
  The body of the \<^verbatim>\<open>try\<close>. Its two parameters are what the handler gets from
  outside: \<open>sentiment\<close> is \<^verbatim>\<open>TextBlob(text).sentiment\<close> (polarity and subjectivity,
  or the exception the library raises), \<open>get_json\<close> is the outcome of
  \<^verbatim>\<open>request.get_json()\<close> (\<open>JNull\<close> for \<^verbatim>\<open>None\<close>).
\<close>

definition analyze_sentiment_try ::
  "(json \<Rightarrow> exn + real \<times> real) \<Rightarrow> exn + json \<Rightarrow> exn + reply" where
  "analyze_sentiment_try sentiment get_json =
     (case get_json of
        Inl e \<Rightarrow> Inl e
      | Inr data \<Rightarrow>
          if \<not> truthy data then Inr no_text_provided
          else (case py_in ''text'' data of
            Inl e \<Rightarrow> Inl e
          | Inr present \<Rightarrow>
              if \<not> present then Inr no_text_provided
              else (case py_getitem data ''text'' of
                Inl e \<Rightarrow> Inl e
              | Inr text \<Rightarrow>
                  (case sentiment text of
                     Inl e \<Rightarrow> Inl e
                   | Inr (polarity, subjectivity) \<Rightarrow>
                       Inr (analysis_result polarity subjectivity)))))"

definition analyze_sentiment ::
  "(json \<Rightarrow> exn + real \<times> real) \<Rightarrow> exn + json \<Rightarrow> reply" where
  "analyze_sentiment sentiment get_json =
     (case analyze_sentiment_try sentiment get_json of
        Inr r \<Rightarrow> r
      | Inl e \<Rightarrow> Reply 500 (JObj [(''error'', JStr (str_exn e))]))"

section \<open>The chat endpoint\<close>

subsection \<open>More of the runtime\<close>

fun and_then :: "exn + 'a \<Rightarrow> ('a \<Rightarrow> exn + 'b) \<Rightarrow> exn + 'b" where
  "and_then (Inl e) f = Inl e"
| "and_then (Inr x) f = f x"

text \<open>\<^verbatim>\<open>obj[-8:]\<close>. Slicing a dict raises (\<^verbatim>\<open>TypeError\<close> up to Python 3.11,
  \<^verbatim>\<open>KeyError\<close> from 3.12 on; the handler treats both alike).\<close>

fun py_slice_last8 :: "json \<Rightarrow> exn + json" where
  "py_slice_last8 (JArr xs) = Inr (JArr (drop (length xs - 8) xs))"
| "py_slice_last8 (JStr s) = Inr (JStr (drop (length s - 8) s))"
| "py_slice_last8 (JObj kvs) = Inl (TypeError (''unhashable type: '' @ quoted ''slice''))"
| "py_slice_last8 v = Inl (TypeError (quoted (type_name v) @ '' object is not subscriptable''))"

text \<open>The elements a \<^verbatim>\<open>for\<close> loop visits: those of a list, the one-character
  strings of a string, the keys of a dict.\<close>

fun py_iter :: "json \<Rightarrow> exn + json list" where
  "py_iter (JArr xs) = Inr xs"
| "py_iter (JStr s) = Inr (map (\<lambda>c. JStr [c]) s)"
| "py_iter (JObj kvs) = Inr (map (\<lambda>kv. JStr (fst kv)) kvs)"
| "py_iter v = Inl (TypeError (quoted (type_name v) @ '' object is not iterable''))"

text \<open>Decimal digits of a status code, as an f-string prints an \<^verbatim>\<open>int\<close>.\<close>

fun string_of_nat :: "nat \<Rightarrow> string" where
  "string_of_nat n =
     (if n < 10 then [''0123456789'' ! n]
      else string_of_nat (n div 10) @ [''0123456789'' ! (n mod 10)])"

declare string_of_nat.simps [simp del]

text \<open>A value inside an f-string: a string stands for itself, anything else is
  printed by the builtin \<^verbatim>\<open>str\<close>, which is a parameter of the model.\<close>

definition format_value :: "(json \<Rightarrow> string) \<Rightarrow> json \<Rightarrow> string" where
  "format_value str_of v = (case v of JStr s \<Rightarrow> s | _ \<Rightarrow> str_of v)"

subsection \<open>Module globals, the outbound call and its answer\<close>

record config =
  GEMINI_API_KEY :: "string option"
  KNOWLEDGE_BASE :: string

definition GEMINI_API_URL :: string where
  "GEMINI_API_URL =
     ''https://generativelanguage.googleapis.com/v1beta/models/gemini-2.0-flash:generateContent''"

text \<open>The arguments of \<^verbatim>\<open>requests.post\<close>.\<close>

record outbound_call =
  call_url :: string
  call_headers :: "(string \<times> string) list"
  call_json :: json
  call_timeout :: nat

text \<open>
  What the handler reads from the response object: \<^verbatim>\<open>status_code\<close>,
  \<^verbatim>\<open>text\<close>, and the body as \<^verbatim>\<open>json()\<close> decodes it: \<open>Inr\<close> the value, or
  \<open>Inl\<close> the decoder's message when the body is not JSON.
\<close>

record upstream_response =
  resp_status_code :: nat
  resp_text :: string
  resp_json :: "string + json"

text \<open>
  \<^verbatim>\<open>response.json()\<close>. On a body that is not JSON, requests (2.27 and later) raises
  its own \<^verbatim>\<open>JSONDecodeError\<close>, which is a \<^verbatim>\<open>RequestException\<close>: of the handler's
  clauses it is the \<^verbatim>\<open>RequestException\<close> one that catches it, being the earlier.
\<close>

definition response_json :: "upstream_response \<Rightarrow> exn + json" where
  "response_json response =
     (case resp_json response of Inl m \<Rightarrow> Inl (RequestException m) | Inr v \<Rightarrow> Inr v)"

subsection \<open>Building the request\<close>

text \<open>The f-string of the handler: two fixed texts around the knowledge base.\<close>

definition persona_intro :: string where
  "persona_intro =
     ''You are MoodMate, a compassionate and supportive AI companion specializing in emotional wellbeing, mood management, and mental health support.\<newline>'' @
     ''\<newline>'' @
     ''Your purpose is to help people:\<newline>'' @
     ''- Understand and process their emotions\<newline>'' @
     ''- Develop healthy coping strategies\<newline>'' @
     ''- Track and reflect on their mood patterns\<newline>'' @
     ''- Learn about emotional intelligence and self-care\<newline>'' @
     ''- Feel heard, validated, and supported in a safe space\<newline>'' @
     ''\<newline>'' @
     ''Knowledge Base:\<newline>''"

definition persona_guidelines :: string where
  "persona_guidelines =
     ''\<newline>'' @
     ''\<newline>'' @
     ''Guidelines for your responses:\<newline>'' @
     ''1. Be warm, empathetic, and non-judgmental in all interactions\<newline>'' @
     ''2. Validate feelings and experiences without dismissing concerns\<newline>'' @
     ''3. Provide evidence-based coping strategies and emotional regulation techniques\<newline>'' @
     ''4. Use clear, structured formatting with headings when providing guidance\<newline>'' @
     ''5. If someone expresses thoughts of self-harm or suicide, provide crisis resources immediately\<newline>'' @
     ''6. Never diagnose mental health conditions - suggest professional help when appropriate\<newline>'' @
     ''7. Encourage healthy habits: sleep, exercise, social connection, and self-care\<newline>'' @
     ''8. Ask thoughtful follow-up questions to better understand emotional states\<newline>'' @
     ''9. Celebrate progress and positive moments, no matter how small\<newline>'' @
     ''10. Respect privacy and remind users that their conversations are confidential\<newline>'' @
     ''\<newline>'' @
     ''Remember: You're a supportive companion, not a replacement for professional mental health care. Focus on empowerment, understanding, and practical emotional support.''"

definition system_prompt :: "string \<Rightarrow> string" where
  "system_prompt knowledge_base = persona_intro @ knowledge_base @ persona_guidelines"

definition acknowledgment :: string where
  "acknowledgment =
     ''I understand. I'm MoodMate, your caring AI companion for emotional wellbeing and support. I'm here to listen without judgment, help you understand your feelings, and guide you toward healthy coping strategies. Whether you're having a tough day or want to celebrate a win, I'm here for you. How are you feeling today?''"

text \<open>One element of \<^verbatim>\<open>contents\<close>.\<close>

definition turn :: "string \<Rightarrow> json \<Rightarrow> json" where
  "turn role t = JObj [(''role'', JStr role), (''parts'', JArr [JObj [(''text'', t)]])]"

text \<open>\<^verbatim>\<open>chat_history[-8:] if len(chat_history) > 8 else chat_history\<close>\<close>

definition recent_history :: "json \<Rightarrow> exn + json" where
  "recent_history chat_history =
     and_then (py_len chat_history) (\<lambda>n.
       if n > 8 then py_slice_last8 chat_history else Inr chat_history)"

text \<open>The body of the loop over the recent history: the element it appends.\<close>

definition upstream_role :: "json \<Rightarrow> string" where
  "upstream_role r = (if r = JStr ''user'' then ''user'' else ''model'')"

definition history_turn :: "json \<Rightarrow> exn + json" where
  "history_turn msg =
     and_then (py_getitem msg ''role'') (\<lambda>r.
     and_then (py_getitem msg ''content'') (\<lambda>c.
       Inr (turn (upstream_role r) c)))"

text \<open>The loop itself, appending to \<^verbatim>\<open>contents\<close> until an element raises.\<close>

fun append_history :: "json list \<Rightarrow> json list \<Rightarrow> exn + json list" where
  "append_history contents [] = Inr contents"
| "append_history contents (msg # msgs) =
     and_then (history_turn msg) (\<lambda>t. append_history (contents @ [t]) msgs)"

definition request_body :: "json list \<Rightarrow> json" where
  "request_body contents =
     JObj [(''contents'', JArr contents),
           (''generationConfig'',
              JObj [(''temperature'', JFloat 0.9),
                    (''topK'', JInt 40),
                    (''topP'', JFloat 0.95),
                    (''maxOutputTokens'', JInt 2048)]),
           (''safetySettings'',
              JArr [JObj [(''category'', JStr ''HARM_CATEGORY_HARASSMENT''),
                          (''threshold'', JStr ''BLOCK_MEDIUM_AND_ABOVE'')],
                    JObj [(''category'', JStr ''HARM_CATEGORY_HATE_SPEECH''),
                          (''threshold'', JStr ''BLOCK_MEDIUM_AND_ABOVE'')],
                    JObj [(''category'', JStr ''HARM_CATEGORY_SEXUALLY_EXPLICIT''),
                          (''threshold'', JStr ''BLOCK_MEDIUM_AND_ABOVE'')],
                    JObj [(''category'', JStr ''HARM_CATEGORY_DANGEROUS_CONTENT''),
                          (''threshold'', JStr ''BLOCK_ONLY_HIGH'')]])]"

definition key_not_set :: reply where
  "key_not_set =
     Reply 500 (JObj [(''error'', JStr ''GEMINI_API_KEY environment variable not set'')])"

definition no_message_provided :: reply where
  "no_message_provided = Reply 400 (JObj [(''error'', JStr ''No message provided'')])"

text \<open>
  The handler up to \<^verbatim>\<open>requests.post\<close>: an exception, an early \<^verbatim>\<open>return\<close>
  (\<open>Inr (Inl reply)\<close>), or the call about to be made. \<^verbatim>\<open>not GEMINI_API_KEY\<close> holds
  for an unset variable and for an empty one.
\<close>

definition chat_request :: "config \<Rightarrow> exn + json \<Rightarrow> exn + (reply + outbound_call)" where
  "chat_request g get_json =
     (case GEMINI_API_KEY g of
        None \<Rightarrow> Inr (Inl key_not_set)
      | Some api_key \<Rightarrow>
          if api_key = [] then Inr (Inl key_not_set)
          else
            and_then get_json (\<lambda>data.
            if \<not> truthy data then Inr (Inl no_message_provided)
            else
              and_then (py_in ''message'' data) (\<lambda>present.
              if \<not> present then Inr (Inl no_message_provided)
              else
                and_then (py_getitem data ''message'') (\<lambda>user_message.
                and_then (py_get data ''history'' (JArr [])) (\<lambda>chat_history.
                and_then (recent_history chat_history) (\<lambda>recent.
                and_then (py_iter recent) (\<lambda>msgs.
                and_then (append_history
                            [turn ''user'' (JStr (system_prompt (KNOWLEDGE_BASE g))),
                             turn ''model'' (JStr acknowledgment)] msgs) (\<lambda>contents.
                  Inr (Inr \<lparr>call_url = GEMINI_API_URL,
                            call_headers = [(''Content-Type'', ''application/json''),
                                            (''x-goog-api-key'', api_key)],
                            call_json = request_body (contents @ [turn ''user'' user_message]),
                            call_timeout = 30\<rparr>)))))))))"

subsection \<open>Reading the answer\<close>

text \<open>The message of the error branch; the bare \<^verbatim>\<open>except\<close> turns every failure
  on the way into the raw body.\<close>

definition error_message :: "upstream_response \<Rightarrow> json" where
  "error_message response =
     (case and_then (response_json response) (\<lambda>error_json.
           and_then (py_get error_json ''error'' (JObj [])) (\<lambda>err.
           py_get err ''message'' (JStr (resp_text response)))) of
        Inr m \<Rightarrow> m
      | Inl e \<Rightarrow> JStr (resp_text response))"

text \<open>The five-fold \<^verbatim>\<open>and\<close> of the success branch, left to right, stopping at the
  first operand that is false or raises.\<close>

definition has_content :: "json \<Rightarrow> exn + bool" where
  "has_content response_data =
     and_then (py_get response_data ''candidates'' JNull) (\<lambda>c.
     if \<not> truthy c then Inr False
     else
       and_then (py_getitem response_data ''candidates'') (\<lambda>candidates.
       and_then (py_len candidates) (\<lambda>n.
       if \<not> n > 0 then Inr False
       else
         and_then (py_getitem0 candidates) (\<lambda>first.
         and_then (py_get first ''content'' JNull) (\<lambda>c'.
         if \<not> truthy c' then Inr False
         else
           and_then (py_getitem first ''content'') (\<lambda>content.
           and_then (py_get content ''parts'' JNull) (\<lambda>p.
           if \<not> truthy p then Inr False
           else
             and_then (py_getitem content ''parts'') (\<lambda>parts.
             and_then (py_len parts) (\<lambda>k. Inr (k > 0))))))))))"

text \<open>\<^verbatim>\<open>response_data['candidates'][0]['content']['parts'][0]['text']\<close>\<close>

definition generated_text :: "json \<Rightarrow> exn + json" where
  "generated_text response_data =
     and_then (py_getitem response_data ''candidates'') (\<lambda>candidates.
     and_then (py_getitem0 candidates) (\<lambda>first.
     and_then (py_getitem first ''content'') (\<lambda>content.
     and_then (py_getitem content ''parts'') (\<lambda>parts.
     and_then (py_getitem0 parts) (\<lambda>part.
     py_getitem part ''text'')))))"

definition no_content_generated :: "(json \<Rightarrow> string) \<Rightarrow> json \<Rightarrow> reply" where
  "no_content_generated str_of response_data =
     Reply 500 (JObj [(''error'', JStr ''No content generated by Gemini API''),
                      (''details'', JStr (str_of response_data))])"

text \<open>The handler after \<^verbatim>\<open>requests.post\<close> has returned a response.\<close>

definition chat_response :: "(json \<Rightarrow> string) \<Rightarrow> upstream_response \<Rightarrow> exn + reply" where
  "chat_response str_of response =
     (if resp_status_code response \<noteq> 200 then
        Inr (Reply 500
          (JObj [(''error'',
                    JStr (''Gemini API Error (Status '' @ string_of_nat (resp_status_code response)
                          @ ''): '' @ format_value str_of (error_message response))),
                 (''status_code'', JInt (int (resp_status_code response))),
                 (''details'', JStr (resp_text response))]))
      else
        and_then (response_json response) (\<lambda>response_data.
        and_then (has_content response_data) (\<lambda>ok.
        if ok then
          and_then (generated_text response_data) (\<lambda>t.
            Inr (Reply 200 (JObj [(''response'', t), (''status'', JStr ''success'')])))
        else
          Inr (no_content_generated str_of response_data))))"

text \<open>The \<^verbatim>\<open>except\<close> clauses, in their order.\<close>

fun chat_except :: "exn \<Rightarrow> reply" where
  "chat_except (Timeout m) =
     Reply 504 (JObj [(''error'', JStr ''Request to Gemini API timed out'')])"
| "chat_except (RequestException m) =
     Reply 500 (JObj [(''error'', JStr (''Network error: '' @ m))])"
| "chat_except (JSONDecodeError m) =
     Reply 500 (JObj [(''error'', JStr (''JSON decode error: '' @ m))])"
| "chat_except e =
     Reply 500 (JObj [(''error'', JStr (''Internal server error: '' @ str_exn e))])"

text \<open>
  The whole handler. \<open>post\<close> is the network: what \<^verbatim>\<open>requests.post\<close> does with a
  call, a response or an exception. The result is the reply to the client together
  with the calls that went out, so that what is sent upstream, and whether anything
  is sent at all, can be stated.
\<close>

definition chat ::
  "config \<Rightarrow> (json \<Rightarrow> string) \<Rightarrow> (outbound_call \<Rightarrow> exn + upstream_response) \<Rightarrow> exn + json
     \<Rightarrow> reply \<times> outbound_call list" where
  "chat g str_of post get_json =
     (case chat_request g get_json of
        Inl e \<Rightarrow> (chat_except e, [])
      | Inr (Inl early) \<Rightarrow> (early, [])
      | Inr (Inr call) \<Rightarrow>
          ((case and_then (post call) (chat_response str_of) of
              Inl e \<Rightarrow> chat_except e
            | Inr r \<Rightarrow> r),
           [call]))"

section \<open>Notions used in the statements\<close>

text \<open>
  The literal \<^verbatim>\<open>0.3\<close> of the source is the binary64 number below; \<open>mood_bucket\<close>
  compares with the decimal \<open>0.3\<close> instead. Between the two there is no float
  (floats from 1/4 up to 1/2 are the multiples of \<open>2 ^ 54\<close>ths), so on floats both
  comparisons agree.
\<close>

definition binary64_0_3 :: real where
  "binary64_0_3 = 5404319552844595 / 2 ^ 54"

text \<open>A history element the loop body accepts: a dict with both members.\<close>

definition well_formed_turn :: "json \<Rightarrow> bool" where
  "well_formed_turn msg =
     (case msg of
        JObj kvs \<Rightarrow> map_of kvs ''role'' \<noteq> None \<and> map_of kvs ''content'' \<noteq> None
      | _ \<Rightarrow> False)"

text \<open>\<^verbatim>\<open>not d.get(k)\<close> on a dict: the member is missing, or null, or empty.\<close>

definition falsy_member :: "(string \<times> json) list \<Rightarrow> string \<Rightarrow> bool" where
  "falsy_member kvs k = (case map_of kvs k of None \<Rightarrow> True | Some v \<Rightarrow> \<not> truthy v)"

text \<open>The text of the first part of the content of the first candidate, when the
  answer has that shape.\<close>

definition first_part_text :: "json \<Rightarrow> json option" where
  "first_part_text response_data =
     (case response_data of
        JObj obj \<Rightarrow>
          (case map_of obj ''candidates'' of
             Some (JArr (JObj candidate # _)) \<Rightarrow>
               (case map_of candidate ''content'' of
                  Some (JObj content) \<Rightarrow>
                    (case map_of content ''parts'' of
                       Some (JArr (JObj part # _)) \<Rightarrow> map_of part ''text''
                     | _ \<Rightarrow> None)
                | _ \<Rightarrow> None)
           | _ \<Rightarrow> None)
      | _ \<Rightarrow> None)"

text \<open>The member \<^verbatim>\<open>error.message\<close> of a decoded error body, when it has one.\<close>

definition nested_error_message :: "json \<Rightarrow> json option" where
  "nested_error_message error_json =
     (case error_json of
        JObj obj \<Rightarrow>
          (case map_of obj ''error'' of
             Some (JObj err) \<Rightarrow> map_of err ''message''
           | _ \<Rightarrow> None)
      | _ \<Rightarrow> None)"

text \<open>
  A scorer that finds no word of its lexicon in any text, hence what TextBlob yields on a
  text without scored words, the empty text included: polarity and subjectivity
  \<^verbatim>\<open>0.0\<close>. Anything but a string makes the constructor raise.
\<close>

definition blank_lexicon :: "json \<Rightarrow> exn + real \<times> real" where
  "blank_lexicon t =
     (case t of
        JStr s \<Rightarrow> Inr (0, 0)
      | _ \<Rightarrow> Inl (TypeError ''The `text` argument passed to `__init__(text)` must be a string''))"

text \<open>A history element in the form it is sent upstream: an object with the role
  \<^verbatim>\<open>user\<close> when the element's role is the string \<^verbatim>\<open>user\<close> and \<^verbatim>\<open>model\<close> otherwise, and
  with one part holding the element's content.\<close>

definition forwarded_turn :: "json \<Rightarrow> json" where
  "forwarded_turn msg =
     (case msg of
        JObj kvs \<Rightarrow>
          (case (map_of kvs ''role'', map_of kvs ''content'') of
             (Some r, Some c) \<Rightarrow>
               JObj [(''role'', JStr (if r = JStr ''user'' then ''user'' else ''model'')),
                     (''parts'', JArr [JObj [(''text'', c)]])]
           | _ \<Rightarrow> JNull)
      | _ \<Rightarrow> JNull)"

text \<open>The history of a request body: its \<^verbatim>\<open>history\<close> member when that is a list, the
  empty list when the member is missing (\<^verbatim>\<open>data.get('history', [])\<close>).\<close>

definition history_list :: "(string \<times> json) list \<Rightarrow> json list option" where
  "history_list obj =
     (case map_of obj ''history'' of
        None \<Rightarrow> Some []
      | Some (JArr h) \<Rightarrow> Some h
      | Some _ \<Rightarrow> None)"

text \<open>
  The reading the specification gives of the error branch, for comparison with
  \<open>error_message\<close>: the member \<^verbatim>\<open>error.message\<close> whenever the body is JSON, the raw
  body otherwise. \<open>None\<close> is a JSON body that has no such member.
\<close>

definition spec_error_message :: "upstream_response \<Rightarrow> json option" where
  "spec_error_message response =
     (case resp_json response of
        Inr error_json \<Rightarrow> nested_error_message error_json
      | Inl m \<Rightarrow> Some (JStr (resp_text response)))"

subsection \<open>The timeout of the HTTP library\<close>




subsection \<open>Sample inputs\<close>

text \<open>A scorer that gives every text the same polarity and subjectivity.\<close>

definition fixed_score :: "real \<Rightarrow> real \<Rightarrow> json \<Rightarrow> exn + real \<times> real" where
  "fixed_score p s t = Inr (p, s)"

definition sample_config :: config where
  "sample_config = \<lparr>GEMINI_API_KEY = Some ''key-123'', KNOWLEDGE_BASE = ''Sleep matters.''\<rparr>"

definition unset_config :: config where
  "unset_config = \<lparr>GEMINI_API_KEY = None, KNOWLEDGE_BASE = ''Sleep matters.''\<rparr>"

definition sample_turn :: "nat \<Rightarrow> json" where
  "sample_turn i =
     JObj [(''role'', JStr (if even i then ''user'' else ''assistant'')),
           (''content'', JStr (string_of_nat i))]"

definition sample_request :: "nat \<Rightarrow> json" where
  "sample_request n =
     JObj [(''message'', JStr ''hello''), (''history'', JArr (map sample_turn [0..<n]))]"

text \<open>A network that answers every call with the same response, one that times out on
  every call, and a \<^verbatim>\<open>str\<close> that prints nothing.\<close>

definition answers :: "upstream_response \<Rightarrow> outbound_call \<Rightarrow> exn + upstream_response" where
  "answers response call = Inr response"

definition times_out :: "outbound_call \<Rightarrow> exn + upstream_response" where
  "times_out call = Inl (Timeout ''Read timed out. (read timeout=30)'')"

definition no_str :: "json \<Rightarrow> string" where
  "no_str v = []"

definition boom_response :: upstream_response where
  \<open>boom_response =
     \<lparr>resp_status_code = 500,
      resp_text = ''{"error":{"message":"boom"}}'',
      resp_json = Inr (JObj [(''error'', JObj [(''message'', JStr ''boom'')])])\<rparr>\<close>

definition flat_error_response :: upstream_response where
  \<open>flat_error_response =
     \<lparr>resp_status_code = 500,
      resp_text = ''{"error":"boom"}'',
      resp_json = Inr (JObj [(''error'', JStr ''boom'')])\<rparr>\<close>

definition generated_response :: upstream_response where
  \<open>generated_response =
     \<lparr>resp_status_code = 200,
      resp_text = ''{"candidates":[{"content":{"parts":[{"text":" Hi! "}]}}]}'',
      resp_json = Inr (JObj [(''candidates'',
        JArr [JObj [(''content'', JObj [(''parts'', JArr [JObj [(''text'', JStr '' Hi! '')]])])]])])\<rparr>\<close>

definition no_candidates_response :: upstream_response where
  \<open>no_candidates_response =
     \<lparr>resp_status_code = 200,
      resp_text = ''{"candidates":[]}'',
      resp_json = Inr (JObj [(''candidates'', JArr [])])\<rparr>\<close>




section \<open>Lemmas on the runtime operations\<close>

lemma and_then_Inl_iff:
  "and_then x f = Inl e \<longleftrightarrow> x = Inl e \<or> (\<exists>y. x = Inr y \<and> f y = Inl e)"
  by (cases x) auto

lemma and_then_Inr_iff:
  "and_then x f = Inr z \<longleftrightarrow> (\<exists>y. x = Inr y \<and> f y = Inr z)"
  by (cases x) auto

lemma py_getitem_Inr:
  "py_getitem v k = Inr x \<longleftrightarrow> (\<exists>kvs. v = JObj kvs \<and> map_of kvs k = Some x)"
  by (cases v) (auto split: option.splits)

lemma py_getitem0_Inr:
  "py_getitem0 v = Inr x \<longleftrightarrow>
     (\<exists>xs. v = JArr (x # xs)) \<or> (\<exists>c cs. v = JStr (c # cs) \<and> x = JStr [c])"
  by (cases v) (auto split: list.splits)

lemma no_timeout_get: "py_get v k d \<noteq> Inl (Timeout m)"
  by (cases v) auto

lemma no_timeout_getitem: "py_getitem v k \<noteq> Inl (Timeout m)"
  by (cases v) (auto split: option.splits)

lemma no_timeout_getitem0: "py_getitem0 v \<noteq> Inl (Timeout m)"
  by (cases v) (auto split: list.splits)

lemma no_timeout_len: "py_len v \<noteq> Inl (Timeout m)"
  by (cases v) auto

lemma no_timeout_response_json: "response_json r \<noteq> Inl (Timeout m)"
  by (auto simp: response_json_def split: sum.splits)

lemmas no_timeout =
  no_timeout_get no_timeout_getitem no_timeout_getitem0 no_timeout_len no_timeout_response_json

section \<open>The float literal\<close>

text \<open>
  The source compares the polarity, a float, with the literals \<^verbatim>\<open>0.3\<close> and
  \<^verbatim>\<open>-0.3\<close>, that is with \<open>binary64_0_3\<close> and its negative. On the floats of that
  magnitude, the multiples of \<open>2 ^ 54\<close>ths, these comparisons have the same outcome as
  the comparisons with the decimal \<open>0.3\<close> that \<open>mood_bucket\<close> makes; smaller and
  larger floats are on the same side of both. At the literal itself the bucket is the
  one of the decimal boundary.
\<close>

lemma no_float_between:
  "\<not> (\<exists>k::int. binary64_0_3 < real_of_int k / 2 ^ 54 \<and> real_of_int k / 2 ^ 54 \<le> 0.3)"
  by (auto simp: binary64_0_3_def field_simps)

lemma float_compare_0_3:
  "(real_of_int k / 2 ^ 54 > binary64_0_3) = (real_of_int k / 2 ^ 54 > 0.3)"
  using no_float_between by (auto simp: binary64_0_3_def field_simps)

lemma no_float_between_negative:
  "\<not> (\<exists>k::int. - 0.3 \<le> real_of_int k / 2 ^ 54 \<and> real_of_int k / 2 ^ 54 < - binary64_0_3)"
proof
  assume "\<exists>k::int. - 0.3 \<le> real_of_int k / 2 ^ 54 \<and> real_of_int k / 2 ^ 54 < - binary64_0_3"
  then obtain k :: int where lower: "- 0.3 \<le> real_of_int k / 2 ^ 54"
    and upper: "real_of_int k / 2 ^ 54 < - binary64_0_3"
    by blast
  from upper have "real_of_int k < real_of_int (- 5404319552844595)"
    by (simp add: binary64_0_3_def field_simps)
  then have "k \<le> - 5404319552844596"
    unfolding of_int_less_iff by simp
  then have "real_of_int k \<le> real_of_int (- 5404319552844596)"
    unfolding of_int_le_iff .
  with lower show False
    by (simp add: field_simps)
qed

lemma float_compare_minus_0_3:
  "(real_of_int k / 2 ^ 54 < - binary64_0_3) = (real_of_int k / 2 ^ 54 < - 0.3)"
proof
  assume "real_of_int k / 2 ^ 54 < - binary64_0_3"
  then show "real_of_int k / 2 ^ 54 < - 0.3"
    using no_float_between_negative by (meson not_le)
next
  assume "real_of_int k / 2 ^ 54 < - 0.3"
  moreover have "- 0.3 < - binary64_0_3"
    by (simp add: binary64_0_3_def)
  ultimately show "real_of_int k / 2 ^ 54 < - binary64_0_3"
    by linarith
qed

lemma mood_bucket_at_float_literal:
  "mood_bucket binary64_0_3 = (emoji_slightly_positive, ''Slightly Positive'', ''#84cc16'')"
  "mood_bucket (- binary64_0_3) = (emoji_slightly_negative, ''Slightly Negative'', ''#f97316'')"
  by (simp_all add: mood_bucket_def binary64_0_3_def)

section \<open>Results on the sentiment endpoint\<close>

lemma analyze_sentiment_scored:
  assumes "map_of obj ''text'' = Some t" and "sentiment t = Inr (p, s)"
  shows "analyze_sentiment sentiment (Inr (JObj obj)) = analysis_result p s"
  using assms by (cases obj) (auto simp: analyze_sentiment_def analyze_sentiment_try_def)

lemma analyze_sentiment_present:
  assumes "map_of obj ''text'' = Some t"
  shows "analyze_sentiment sentiment (Inr (JObj obj)) =
     (case sentiment t of
        Inr (p, s) \<Rightarrow> analysis_result p s
      | Inl e \<Rightarrow> Reply 500 (JObj [(''error'', JStr (str_exn e))]))"
  using assms
  by (cases obj) (auto simp: analyze_sentiment_def analyze_sentiment_try_def split: sum.splits)

lemma analyze_sentiment_missing:
  assumes "\<not> truthy data \<or> py_in ''text'' data = Inr False"
  shows "analyze_sentiment sentiment (Inr data) = no_text_provided"
  using assms by (auto simp: analyze_sentiment_def analyze_sentiment_try_def)

text \<open>
  Claim C1. Whatever polarity \<open>p\<close> the scorer yields for the submitted text, the reply
  carries the emoji, mood and color of exactly one bucket, the one picked by the guard
  chain in its order: \<open>p > 0.3\<close> is Happy with U+1F60A and \<^verbatim>\<open>#10b981\<close>;
  \<open>0 < p \<le> 0.3\<close> is Slightly Positive with U+1F642 and \<^verbatim>\<open>#84cc16\<close>; \<open>p < -0.3\<close> is
  Sad with U+1F622 and \<^verbatim>\<open>#ef4444\<close>; \<open>-0.3 \<le> p < 0\<close> is Slightly Negative with U+1F615
  and \<^verbatim>\<open>#f97316\<close>; \<open>p = 0\<close> is Neutral with U+1F610 and \<^verbatim>\<open>#6b7280\<close>. The five
  conditions cover every \<open>p\<close>, and the boundary values
  \<open>0.3\<close>, \<open>-0.3\<close> and \<open>0\<close> fall into Slightly Positive, Slightly Negative and Neutral.
\<close>

theorem mood_buckets:
  assumes "map_of obj ''text'' = Some t" and "sentiment t = Inr (p, s)"
  shows "(\<exists>emoji mood color.
            mood_bucket p = (emoji, mood, color) \<and>
            analyze_sentiment sentiment (Inr (JObj obj)) =
              Reply 200 (JObj [(''emoji'', JStr emoji), (''mood'', JStr mood),
                               (''polarity'', JFloat (py_round2 p)),
                               (''subjectivity'', JFloat (py_round2 s)),
                               (''color'', JStr color), (''status'', JStr ''success'')]))
       \<and> (p > 0.3 \<longrightarrow> mood_bucket p = (emoji_happy, ''Happy'', ''#10b981''))
       \<and> (0 < p \<and> p \<le> 0.3 \<longrightarrow>
              mood_bucket p = (emoji_slightly_positive, ''Slightly Positive'', ''#84cc16''))
       \<and> (p < - 0.3 \<longrightarrow> mood_bucket p = (emoji_sad, ''Sad'', ''#ef4444''))
       \<and> (- 0.3 \<le> p \<and> p < 0 \<longrightarrow>
              mood_bucket p = (emoji_slightly_negative, ''Slightly Negative'', ''#f97316''))
       \<and> (p = 0 \<longrightarrow> mood_bucket p = (emoji_neutral, ''Neutral'', ''#6b7280''))
       \<and> mood_bucket 0.3 = (emoji_slightly_positive, ''Slightly Positive'', ''#84cc16'')
       \<and> mood_bucket (- 0.3) = (emoji_slightly_negative, ''Slightly Negative'', ''#f97316'')
       \<and> mood_bucket 0 = (emoji_neutral, ''Neutral'', ''#6b7280'')
       \<and> (p > 0.3 \<or> (0 < p \<and> p \<le> 0.3) \<or> p < - 0.3 \<or> (- 0.3 \<le> p \<and> p < 0) \<or> p = 0)"
proof -
  have "analyze_sentiment sentiment (Inr (JObj obj)) = analysis_result p s"
    using assms by (rule analyze_sentiment_scored)
  then have first: "\<exists>emoji mood color.
            mood_bucket p = (emoji, mood, color) \<and>
            analyze_sentiment sentiment (Inr (JObj obj)) =
              Reply 200 (JObj [(''emoji'', JStr emoji), (''mood'', JStr mood),
                               (''polarity'', JFloat (py_round2 p)),
                               (''subjectivity'', JFloat (py_round2 s)),
                               (''color'', JStr color), (''status'', JStr ''success'')])"
    by (cases "mood_bucket p") (simp add: analysis_result_def)
  have cover: "p > 0.3 \<or> (0 < p \<and> p \<le> 0.3) \<or> p < - 0.3 \<or> (- 0.3 \<le> p \<and> p < 0) \<or> p = 0"
    by arith
  show ?thesis
    using first cover by (simp add: mood_bucket_def)
qed

text \<open>The statement of C1 at a polarity of \<open>0.5\<close> and at the boundary \<open>-0.3\<close>.\<close>

theorem mood_buckets_witness:
  "analyze_sentiment (fixed_score (1 / 2) (3 / 5)) (Inr (JObj [(''text'', JStr ''I love this'')])) =
     Reply 200 (JObj [(''emoji'', JStr emoji_happy), (''mood'', JStr ''Happy''),
                      (''polarity'', JFloat (1 / 2)), (''subjectivity'', JFloat (3 / 5)),
                      (''color'', JStr ''#10b981''), (''status'', JStr ''success'')])
   \<and> analyze_sentiment (fixed_score (- 0.3) 1) (Inr (JObj [(''text'', JStr ''meh'')])) =
     Reply 200 (JObj [(''emoji'', JStr emoji_slightly_negative), (''mood'', JStr ''Slightly Negative''),
                      (''polarity'', JFloat (- 0.3)), (''subjectivity'', JFloat 1),
                      (''color'', JStr ''#f97316''), (''status'', JStr ''success'')])"
  using mood_buckets [of "[(''text'', JStr ''I love this'')]" "JStr ''I love this''"
                         "fixed_score (1 / 2) (3 / 5)" "1 / 2" "3 / 5"]
        mood_buckets [of "[(''text'', JStr ''meh'')]" "JStr ''meh''"
                         "fixed_score (- 0.3) 1" "- 0.3" "1"]
  by (auto simp: py_round2_def fixed_score_def)

text \<open>
  Claim C2, as it is worded, fails. A request whose \<^verbatim>\<open>text\<close> is the empty string
  passes the guard (the body is a non-empty dict that has the key), is scored, and
  comes back with status 200 and an analysis result, not with status 400. And a body
  that is no object, such as the number 5, has no \<^verbatim>\<open>text\<close> field, yet the membership
  test raises on it and the reply is status 500.
\<close>

theorem empty_text_is_scored:
  "analyze_sentiment blank_lexicon (Inr (JObj [(''text'', JStr '''')])) =
     Reply 200 (JObj [(''emoji'', JStr emoji_neutral), (''mood'', JStr ''Neutral''),
                      (''polarity'', JFloat 0), (''subjectivity'', JFloat 0),
                      (''color'', JStr ''#6b7280''), (''status'', JStr ''success'')])
   \<and> status (analyze_sentiment blank_lexicon (Inr (JInt 5))) = 500"
  by (simp add: analyze_sentiment_def analyze_sentiment_try_def blank_lexicon_def
        analysis_result_def mood_bucket_def py_round2_def)

text \<open>
  Claim C2, amended. For every request whose body is a JSON object: when the object has
  no \<^verbatim>\<open>text\<close> member the reply is status 400 with the error body
  \<^verbatim>\<open>No text provided\<close>, and no analysis result; when the \<^verbatim>\<open>text\<close> member is the empty
  string the request is not rejected but scored like any other text: the reply is the
  analysis result, with status 200, of the scorer's outcome on the empty text (or
  status 500 if the scorer raises).
\<close>

theorem missing_text_rejected:
  "(map_of obj ''text'' = None \<longrightarrow>
      analyze_sentiment sentiment (Inr (JObj obj)) =
        Reply 400 (JObj [(''error'', JStr ''No text provided'')]))
   \<and> (map_of obj ''text'' = Some (JStr '''') \<longrightarrow>
      (case sentiment (JStr '''') of
         Inr (p, s) \<Rightarrow>
           analyze_sentiment sentiment (Inr (JObj obj)) = analysis_result p s \<and>
           status (analyze_sentiment sentiment (Inr (JObj obj))) = 200
       | Inl e \<Rightarrow>
           analyze_sentiment sentiment (Inr (JObj obj)) =
             Reply 500 (JObj [(''error'', JStr (str_exn e))])))"
proof -
  have missing: "analyze_sentiment sentiment (Inr (JObj obj)) =
        Reply 400 (JObj [(''error'', JStr ''No text provided'')])"
    if "map_of obj ''text'' = None"
    using that analyze_sentiment_missing [of "JObj obj" sentiment]
    by (simp add: no_text_provided_def)
  have "status (analysis_result p s) = 200" for p s
    by (cases "mood_bucket p") (simp add: analysis_result_def)
  then have empty: "case sentiment (JStr '''') of
         Inr (p, s) \<Rightarrow>
           analyze_sentiment sentiment (Inr (JObj obj)) = analysis_result p s \<and>
           status (analyze_sentiment sentiment (Inr (JObj obj))) = 200
       | Inl e \<Rightarrow>
           analyze_sentiment sentiment (Inr (JObj obj)) =
             Reply 500 (JObj [(''error'', JStr (str_exn e))])"
    if "map_of obj ''text'' = Some (JStr '''')"
    using analyze_sentiment_present [OF that, of sentiment]
    by (auto split: sum.splits)
  show ?thesis
    using missing empty by blast
qed

text \<open>The amended C2 on an object without the member and on an empty text.\<close>

theorem missing_text_rejected_witness:
  "analyze_sentiment blank_lexicon (Inr (JObj [(''note'', JStr ''hi'')])) =
     Reply 400 (JObj [(''error'', JStr ''No text provided'')])
   \<and> analyze_sentiment blank_lexicon (Inr (JObj [(''text'', JStr '''')])) = analysis_result 0 0
   \<and> status (analyze_sentiment blank_lexicon (Inr (JObj [(''text'', JStr '''')]))) = 200"
  using missing_text_rejected [of "[(''note'', JStr ''hi'')]" blank_lexicon]
        missing_text_rejected [of "[(''text'', JStr '''')]" blank_lexicon]
  by (auto simp: blank_lexicon_def)

text \<open>
  Claim C9. With the scorer fixed, the reply of the sentiment endpoint is a function of
  the submitted text alone: two requests that agree on their \<^verbatim>\<open>text\<close> member (both
  lacking it included) get the same reply, hence the same polarity, subjectivity,
  mood, emoji and color, whatever else the bodies contain. The handler reads no state
  and writes none; its model accordingly has no other input and no other output.
\<close>

theorem analyze_depends_on_text_only:
  assumes "map_of obj ''text'' = map_of obj' ''text''"
  shows "analyze_sentiment sentiment (Inr (JObj obj)) =
         analyze_sentiment sentiment (Inr (JObj obj'))"
proof (cases "map_of obj ''text''")
  case None
  then show ?thesis
    using assms analyze_sentiment_missing [of "JObj obj" sentiment]
          analyze_sentiment_missing [of "JObj obj'" sentiment]
    by simp
next
  case (Some t)
  then show ?thesis
    using assms analyze_sentiment_present [of obj t sentiment]
          analyze_sentiment_present [of obj' t sentiment]
    by simp
qed

text \<open>C9 on two bodies that differ in a member other than the text.\<close>

theorem analyze_depends_on_text_only_witness:
  "analyze_sentiment blank_lexicon (Inr (JObj [(''text'', JStr ''fine'')])) =
   analyze_sentiment blank_lexicon (Inr (JObj [(''lang'', JStr ''en''), (''text'', JStr ''fine'')]))"
  using analyze_depends_on_text_only
          [of "[(''text'', JStr ''fine'')]" "[(''lang'', JStr ''en''), (''text'', JStr ''fine'')]"
              blank_lexicon]
  by simp

section \<open>Lemmas on building the request\<close>

lemma history_turn_well_formed:
  "well_formed_turn msg \<Longrightarrow> history_turn msg = Inr (forwarded_turn msg)"
  by (auto simp: well_formed_turn_def history_turn_def forwarded_turn_def turn_def
        upstream_role_def split: json.splits)

lemma append_history_well_formed:
  "\<forall>msg\<in>set msgs. well_formed_turn msg \<Longrightarrow>
     append_history contents msgs = Inr (contents @ map forwarded_turn msgs)"
  by (induction msgs arbitrary: contents) (simp_all add: history_turn_well_formed)

lemma recent_history_list:
  "recent_history (JArr h) = Inr (JArr (drop (length h - 8) h))"
  by (simp add: recent_history_def)

lemma chat_request_ready:
  assumes "GEMINI_API_KEY g = Some k" and "k \<noteq> []"
    and "map_of obj ''message'' = Some m"
    and "history_list obj = Some h"
    and "\<forall>msg\<in>set (drop (length h - 8) h). well_formed_turn msg"
  shows "chat_request g (Inr (JObj obj)) =
     Inr (Inr \<lparr>call_url = GEMINI_API_URL,
               call_headers = [(''Content-Type'', ''application/json''), (''x-goog-api-key'', k)],
               call_json = request_body
                 ([turn ''user'' (JStr (system_prompt (KNOWLEDGE_BASE g))),
                   turn ''model'' (JStr acknowledgment)]
                  @ map forwarded_turn (drop (length h - 8) h)
                  @ [turn ''user'' m]),
               call_timeout = 30\<rparr>)"
proof -
  have nonempty: "obj \<noteq> []" using assms(3) by auto
  have hist: "(case map_of obj ''history'' of None \<Rightarrow> JArr [] | Some v \<Rightarrow> v) = JArr h"
    using assms(4) by (auto simp: history_list_def split: option.splits json.splits)
  show ?thesis
    using assms(1,2,3,5) nonempty
    by (simp add: chat_request_def hist recent_history_list append_history_well_formed)
qed

lemma chat_calls:
  "chat_request g get_json = Inr (Inr call) \<Longrightarrow> snd (chat g str_of post get_json) = [call]"
  by (simp add: chat_def)

lemma chat_calls_iff:
  "snd (chat g str_of post get_json) = [call] \<longleftrightarrow> chat_request g get_json = Inr (Inr call)"
  by (auto simp: chat_def split: sum.splits)

lemma chat_reply_after_call:
  assumes "snd (chat g str_of post get_json) = [call]"
  shows "fst (chat g str_of post get_json) =
     (case and_then (post call) (chat_response str_of) of
        Inl e \<Rightarrow> chat_except e
      | Inr r \<Rightarrow> r)"
  using assms by (auto simp: chat_def split: sum.splits)


lemma sample_request_ready:
  "chat_request sample_config (Inr (sample_request n)) =
     Inr (Inr \<lparr>call_url = GEMINI_API_URL,
               call_headers = [(''Content-Type'', ''application/json''),
                               (''x-goog-api-key'', ''key-123'')],
               call_json = request_body
                 ([turn ''user'' (JStr (system_prompt ''Sleep matters.'')),
                   turn ''model'' (JStr acknowledgment)]
                  @ map forwarded_turn (map sample_turn [n - 8..<n])
                  @ [turn ''user'' (JStr ''hello'')]),
               call_timeout = 30\<rparr>)"
  using chat_request_ready [of sample_config "''key-123''"
          "[(''message'', JStr ''hello''), (''history'', JArr (map sample_turn [0..<n]))]"
          "JStr ''hello''" "map sample_turn [0..<n]"]
  by (simp add: sample_config_def sample_request_def history_list_def well_formed_turn_def
        sample_turn_def drop_map)

lemma chat_sends:
  assumes "GEMINI_API_KEY g = Some k" and "k \<noteq> []"
    and "map_of obj ''message'' = Some m"
    and "history_list obj = Some h"
    and "\<forall>msg\<in>set (drop (length h - 8) h). well_formed_turn msg"
  shows "\<exists>call.
           snd (chat g str_of post (Inr (JObj obj))) = [call] \<and>
           call_json call =
             request_body
               ([turn ''user'' (JStr (system_prompt (KNOWLEDGE_BASE g))),
                 turn ''model'' (JStr acknowledgment)]
                @ map forwarded_turn (drop (length h - 8) h)
                @ [turn ''user'' m])"
  using chat_calls [OF chat_request_ready [OF assms], of str_of post]
  by simp

lemma sample_turns_well_formed:
  "\<forall>msg\<in>set (drop n (map sample_turn xs)). well_formed_turn msg"
  by (auto simp: well_formed_turn_def sample_turn_def dest!: in_set_dropD)

lemma sample_request_parts:
  "GEMINI_API_KEY sample_config = Some ''key-123''"
  "KNOWLEDGE_BASE sample_config = ''Sleep matters.''"
  "map_of [(''message'', JStr ''hello''), (''history'', JArr h)] ''message'' = Some (JStr ''hello'')"
  "history_list [(''message'', JStr ''hello''), (''history'', JArr h)] = Some h"
  by (simp_all add: sample_config_def history_list_def)

section \<open>Lemmas on reading the answer\<close>

lemma has_content_no_timeout: "has_content j \<noteq> Inl (Timeout m)"
  unfolding has_content_def
  by (auto simp: and_then_Inl_iff no_timeout split: if_splits)

lemma generated_text_no_timeout: "generated_text j \<noteq> Inl (Timeout m)"
  unfolding generated_text_def
  by (auto simp: and_then_Inl_iff no_timeout)

lemma chat_response_no_timeout: "chat_response str_of r \<noteq> Inl (Timeout m)"
  unfolding chat_response_def
  by (auto simp: and_then_Inl_iff no_timeout has_content_no_timeout generated_text_no_timeout
           split: if_splits)

lemma chat_except_500:
  assumes "\<forall>m. e \<noteq> Timeout m"
  shows "\<exists>msg. chat_except e = Reply 500 (JObj [(''error'', JStr msg)])"
  using assms by (cases e) auto

lemma generated_text_Inr:
  "generated_text j = Inr t \<Longrightarrow> first_part_text j = Some t"
  unfolding generated_text_def
  by (auto simp: and_then_Inr_iff py_getitem_Inr py_getitem0_Inr first_part_text_def)

lemma first_part_text_Some:
  assumes "first_part_text j = Some t"
  shows "has_content j = Inr True" and "generated_text j = Inr t"
  using assms
  by (auto simp: first_part_text_def has_content_def generated_text_def
           split: json.splits option.splits list.splits)

lemma chat_response_generated:
  assumes "resp_status_code r = 200" and "resp_json r = Inr j" and "first_part_text j = Some t"
  shows "chat_response str_of r =
     Inr (Reply 200 (JObj [(''response'', t), (''status'', JStr ''success'')]))"
  using assms first_part_text_Some [OF assms(3)]
  by (simp add: chat_response_def response_json_def)

lemma chat_response_Inr_200:
  assumes "resp_status_code r = 200" and "chat_response str_of r = Inr x"
  shows "(\<exists>j t. resp_json r = Inr j \<and> first_part_text j = Some t)
       \<or> (\<exists>j. x = no_content_generated str_of j)"
  using assms
  by (auto simp: chat_response_def and_then_Inr_iff response_json_def
           dest: generated_text_Inr split: if_splits sum.splits)

lemma error_message_eq:
  "error_message r =
     (case resp_json r of
        Inl d \<Rightarrow> JStr (resp_text r)
      | Inr j \<Rightarrow>
          (case nested_error_message j of
             Some m \<Rightarrow> m
           | None \<Rightarrow> JStr (resp_text r)))"
proof (cases "resp_json r")
  case (Inl d)
  then show ?thesis by (simp add: error_message_def response_json_def)
next
  case (Inr j)
  show ?thesis
  proof (cases j)
    case (JObj obj)
    show ?thesis
    proof (cases "map_of obj ''error''")
      case None
      then show ?thesis
        using Inr JObj by (simp add: error_message_def response_json_def nested_error_message_def)
    next
      case (Some err)
      then show ?thesis
        using Inr JObj
        by (cases err)
           (simp_all add: error_message_def response_json_def nested_error_message_def
              split: option.splits)
    qed
  qed (simp_all add: Inr error_message_def response_json_def nested_error_message_def)
qed

section \<open>Results on the request sent upstream\<close>

text \<open>
  Claim C3. For a history \<open>h\<close> of any length \<open>n\<close>, the \<^verbatim>\<open>contents\<close> member of the JSON
  body of the one call that goes upstream holds, between the persona turn, the
  acknowledgment turn and the current message, exactly the last \<open>min n 8\<close> elements of
  \<open>h\<close>, each in its forwarded form and in the order of \<open>h\<close>; what is left out is the
  part of \<open>h\<close> before them. A history of 20 turns is cut to its last 8, those from
  index 12 on.
\<close>

theorem history_window:
  assumes "GEMINI_API_KEY g = Some k" and "k \<noteq> []"
    and "map_of obj ''message'' = Some m"
    and "history_list obj = Some h"
    and "\<forall>msg\<in>set (drop (length h - 8) h). well_formed_turn msg"
  shows "\<exists>call rest older window.
           snd (chat g str_of post (Inr (JObj obj))) = [call] \<and>
           h = older @ window \<and>
           length window = min (length h) 8 \<and>
           (length h = 20 \<longrightarrow> window = drop 12 h) \<and>
           call_json call =
             JObj ((''contents'',
                    JArr (JObj [(''role'', JStr ''user''),
                                (''parts'', JArr [JObj [(''text'',
                                   JStr (persona_intro @ KNOWLEDGE_BASE g @ persona_guidelines))]])]
                          # JObj [(''role'', JStr ''model''),
                                  (''parts'', JArr [JObj [(''text'', JStr acknowledgment)]])]
                          # map forwarded_turn window
                          @ [JObj [(''role'', JStr ''user''),
                                   (''parts'', JArr [JObj [(''text'', m)]])]]))
                   # rest)"
proof -
  obtain call where
    "snd (chat g str_of post (Inr (JObj obj))) = [call]"
    and json: "call_json call =
             request_body
               ([turn ''user'' (JStr (system_prompt (KNOWLEDGE_BASE g))),
                 turn ''model'' (JStr acknowledgment)]
                @ map forwarded_turn (drop (length h - 8) h)
                @ [turn ''user'' m])"
    using chat_sends [OF assms, of str_of post] by blast
  moreover have "\<exists>rest. call_json call =
             JObj ((''contents'',
                    JArr (JObj [(''role'', JStr ''user''),
                                (''parts'', JArr [JObj [(''text'',
                                   JStr (persona_intro @ KNOWLEDGE_BASE g @ persona_guidelines))]])]
                          # JObj [(''role'', JStr ''model''),
                                  (''parts'', JArr [JObj [(''text'', JStr acknowledgment)]])]
                          # map forwarded_turn (drop (length h - 8) h)
                          @ [JObj [(''role'', JStr ''user''),
                                   (''parts'', JArr [JObj [(''text'', m)]])]]))
                   # rest)"
    unfolding json by (simp add: request_body_def turn_def system_prompt_def)
  moreover have "h = take (length h - 8) h @ drop (length h - 8) h"
    by simp
  moreover have "length (drop (length h - 8) h) = min (length h) 8"
    by simp
  moreover have "length h = 20 \<longrightarrow> drop (length h - 8) h = drop 12 h"
    by simp
  ultimately show ?thesis
    by blast
qed

text \<open>C3 on a history of 20 turns: the turns numbered 12 to 19 are forwarded.\<close>

theorem history_window_witness:
  "\<exists>call rest.
     snd (chat sample_config no_str times_out (Inr (sample_request 20))) = [call] \<and>
     call_json call =
       JObj ((''contents'',
              JArr [JObj [(''role'', JStr ''user''),
                          (''parts'', JArr [JObj [(''text'',
                             JStr (persona_intro @ ''Sleep matters.'' @ persona_guidelines))]])],
                    JObj [(''role'', JStr ''model''),
                          (''parts'', JArr [JObj [(''text'', JStr acknowledgment)]])],
                    JObj [(''role'', JStr ''user''), (''parts'', JArr [JObj [(''text'', JStr ''12'')]])],
                    JObj [(''role'', JStr ''model''), (''parts'', JArr [JObj [(''text'', JStr ''13'')]])],
                    JObj [(''role'', JStr ''user''), (''parts'', JArr [JObj [(''text'', JStr ''14'')]])],
                    JObj [(''role'', JStr ''model''), (''parts'', JArr [JObj [(''text'', JStr ''15'')]])],
                    JObj [(''role'', JStr ''user''), (''parts'', JArr [JObj [(''text'', JStr ''16'')]])],
                    JObj [(''role'', JStr ''model''), (''parts'', JArr [JObj [(''text'', JStr ''17'')]])],
                    JObj [(''role'', JStr ''user''), (''parts'', JArr [JObj [(''text'', JStr ''18'')]])],
                    JObj [(''role'', JStr ''model''), (''parts'', JArr [JObj [(''text'', JStr ''19'')]])],
                    JObj [(''role'', JStr ''user''),
                          (''parts'', JArr [JObj [(''text'', JStr ''hello'')]])]])
             # rest)"
proof -
  let ?h = "map sample_turn [0..<20]"
  have upt: "[12..<20] = [12, 13, 14, 15, 16, 17, 18, 19::nat]"
    by (simp add: upt_rec)
  have sent: "map forwarded_turn (drop 12 ?h) =
     [JObj [(''role'', JStr ''user''), (''parts'', JArr [JObj [(''text'', JStr ''12'')]])],
      JObj [(''role'', JStr ''model''), (''parts'', JArr [JObj [(''text'', JStr ''13'')]])],
      JObj [(''role'', JStr ''user''), (''parts'', JArr [JObj [(''text'', JStr ''14'')]])],
      JObj [(''role'', JStr ''model''), (''parts'', JArr [JObj [(''text'', JStr ''15'')]])],
      JObj [(''role'', JStr ''user''), (''parts'', JArr [JObj [(''text'', JStr ''16'')]])],
      JObj [(''role'', JStr ''model''), (''parts'', JArr [JObj [(''text'', JStr ''17'')]])],
      JObj [(''role'', JStr ''user''), (''parts'', JArr [JObj [(''text'', JStr ''18'')]])],
      JObj [(''role'', JStr ''model''), (''parts'', JArr [JObj [(''text'', JStr ''19'')]])]]"
    by (simp add: drop_map upt sample_turn_def forwarded_turn_def string_of_nat.simps)
  have "\<exists>call rest older window.
           snd (chat sample_config no_str times_out (Inr (sample_request 20))) = [call] \<and>
           ?h = older @ window \<and>
           length window = min (length ?h) 8 \<and>
           (length ?h = 20 \<longrightarrow> window = drop 12 ?h) \<and>
           call_json call =
             JObj ((''contents'',
                    JArr (JObj [(''role'', JStr ''user''),
                                (''parts'', JArr [JObj [(''text'',
                                   JStr (persona_intro @ ''Sleep matters.'' @ persona_guidelines))]])]
                          # JObj [(''role'', JStr ''model''),
                                  (''parts'', JArr [JObj [(''text'', JStr acknowledgment)]])]
                          # map forwarded_turn window
                          @ [JObj [(''role'', JStr ''user''),
                                   (''parts'', JArr [JObj [(''text'', JStr ''hello'')]])]]))
                   # rest)"
    using history_window [OF sample_request_parts(1) _ sample_request_parts(3,4) [of ?h]
            sample_turns_well_formed [of "length ?h - 8" "[0..<20]"],
            where str_of = no_str and post = times_out]
    by (simp add: sample_request_parts(2) sample_request_def)
  then obtain call rest window where
    "snd (chat sample_config no_str times_out (Inr (sample_request 20))) = [call]"
    and "length ?h = 20 \<longrightarrow> window = drop 12 ?h"
    and "call_json call =
             JObj ((''contents'',
                    JArr (JObj [(''role'', JStr ''user''),
                                (''parts'', JArr [JObj [(''text'',
                                   JStr (persona_intro @ ''Sleep matters.'' @ persona_guidelines))]])]
                          # JObj [(''role'', JStr ''model''),
                                  (''parts'', JArr [JObj [(''text'', JStr acknowledgment)]])]
                          # map forwarded_turn window
                          @ [JObj [(''role'', JStr ''user''),
                                   (''parts'', JArr [JObj [(''text'', JStr ''hello'')]])]]))
                   # rest)"
    by blast
  moreover have "length ?h = 20"
    by simp
  ultimately show ?thesis
    using sent by auto
qed

text \<open>
  Claim C4. The \<^verbatim>\<open>contents\<close> member of the JSON body of the call sent upstream is,
  in this order: one user turn whose text is the fixed persona instruction around the
  whole knowledge base; one model turn whose text is the fixed acknowledgment; the at
  most 8 turns of the history window in their forwarded form, each of them a user turn
  or a model turn (\<^verbatim>\<open>model\<close> is the upstream name of the assistant's role); and last
  the current message as a user turn.
\<close>

theorem message_sequence:
  assumes "GEMINI_API_KEY g = Some k" and "k \<noteq> []"
    and "map_of obj ''message'' = Some m"
    and "history_list obj = Some h"
    and "\<forall>msg\<in>set (drop (length h - 8) h). well_formed_turn msg"
  shows "\<exists>call rest sent.
           snd (chat g str_of post (Inr (JObj obj))) = [call] \<and>
           call_json call =
             JObj ((''contents'',
                    JArr (JObj [(''role'', JStr ''user''),
                                (''parts'', JArr [JObj [(''text'',
                                   JStr (persona_intro @ KNOWLEDGE_BASE g @ persona_guidelines))]])]
                          # JObj [(''role'', JStr ''model''),
                                  (''parts'', JArr [JObj [(''text'', JStr acknowledgment)]])]
                          # sent
                          @ [JObj [(''role'', JStr ''user''),
                                   (''parts'', JArr [JObj [(''text'', m)]])]]))
                   # rest) \<and>
           sent = map forwarded_turn (drop (length h - 8) h) \<and>
           length sent \<le> 8 \<and>
           (\<forall>t\<in>set sent. \<exists>c.
              t = JObj [(''role'', JStr ''user''), (''parts'', JArr [JObj [(''text'', c)]])] \<or>
              t = JObj [(''role'', JStr ''model''), (''parts'', JArr [JObj [(''text'', c)]])])"
proof -
  obtain call where
    "snd (chat g str_of post (Inr (JObj obj))) = [call]"
    and json: "call_json call =
             request_body
               ([turn ''user'' (JStr (system_prompt (KNOWLEDGE_BASE g))),
                 turn ''model'' (JStr acknowledgment)]
                @ map forwarded_turn (drop (length h - 8) h)
                @ [turn ''user'' m])"
    using chat_sends [OF assms, of str_of post] by blast
  moreover have "\<exists>rest. call_json call =
             JObj ((''contents'',
                    JArr (JObj [(''role'', JStr ''user''),
                                (''parts'', JArr [JObj [(''text'',
                                   JStr (persona_intro @ KNOWLEDGE_BASE g @ persona_guidelines))]])]
                          # JObj [(''role'', JStr ''model''),
                                  (''parts'', JArr [JObj [(''text'', JStr acknowledgment)]])]
                          # map forwarded_turn (drop (length h - 8) h)
                          @ [JObj [(''role'', JStr ''user''),
                                   (''parts'', JArr [JObj [(''text'', m)]])]]))
                   # rest)"
    unfolding json by (simp add: request_body_def turn_def system_prompt_def)
  moreover have "length (map forwarded_turn (drop (length h - 8) h)) \<le> 8"
    by simp
  moreover have "\<exists>c.
      forwarded_turn msg = JObj [(''role'', JStr ''user''), (''parts'', JArr [JObj [(''text'', c)]])] \<or>
      forwarded_turn msg = JObj [(''role'', JStr ''model''), (''parts'', JArr [JObj [(''text'', c)]])]"
    if "well_formed_turn msg" for msg
    using that by (auto simp: well_formed_turn_def forwarded_turn_def split: json.splits)
  then have "\<forall>t\<in>set (map forwarded_turn (drop (length h - 8) h)). \<exists>c.
      t = JObj [(''role'', JStr ''user''), (''parts'', JArr [JObj [(''text'', c)]])] \<or>
      t = JObj [(''role'', JStr ''model''), (''parts'', JArr [JObj [(''text'', c)]])]"
    using assms(5) by auto
  ultimately show ?thesis
    by blast
qed

text \<open>C4 on a history of three turns.\<close>

theorem message_sequence_witness:
  "\<exists>call rest.
     snd (chat sample_config no_str times_out (Inr (sample_request 3))) = [call] \<and>
     call_json call =
       JObj ((''contents'',
              JArr [JObj [(''role'', JStr ''user''),
                          (''parts'', JArr [JObj [(''text'',
                             JStr (persona_intro @ ''Sleep matters.'' @ persona_guidelines))]])],
                    JObj [(''role'', JStr ''model''),
                          (''parts'', JArr [JObj [(''text'', JStr acknowledgment)]])],
                    JObj [(''role'', JStr ''user''), (''parts'', JArr [JObj [(''text'', JStr ''0'')]])],
                    JObj [(''role'', JStr ''model''), (''parts'', JArr [JObj [(''text'', JStr ''1'')]])],
                    JObj [(''role'', JStr ''user''), (''parts'', JArr [JObj [(''text'', JStr ''2'')]])],
                    JObj [(''role'', JStr ''user''),
                          (''parts'', JArr [JObj [(''text'', JStr ''hello'')]])]])
             # rest)"
proof -
  let ?h = "map sample_turn [0..<3]"
  have upt: "[0..<3] = [0, 1, 2::nat]"
    by (simp add: upt_rec)
  have sent: "map forwarded_turn ?h =
     [JObj [(''role'', JStr ''user''), (''parts'', JArr [JObj [(''text'', JStr ''0'')]])],
      JObj [(''role'', JStr ''model''), (''parts'', JArr [JObj [(''text'', JStr ''1'')]])],
      JObj [(''role'', JStr ''user''), (''parts'', JArr [JObj [(''text'', JStr ''2'')]])]]"
    by (simp add: upt sample_turn_def forwarded_turn_def string_of_nat.simps)
  have "\<exists>call rest sent.
           snd (chat sample_config no_str times_out (Inr (sample_request 3))) = [call] \<and>
           call_json call =
             JObj ((''contents'',
                    JArr (JObj [(''role'', JStr ''user''),
                                (''parts'', JArr [JObj [(''text'',
                                   JStr (persona_intro @ ''Sleep matters.'' @ persona_guidelines))]])]
                          # JObj [(''role'', JStr ''model''),
                                  (''parts'', JArr [JObj [(''text'', JStr acknowledgment)]])]
                          # sent
                          @ [JObj [(''role'', JStr ''user''),
                                   (''parts'', JArr [JObj [(''text'', JStr ''hello'')]])]]))
                   # rest) \<and>
           sent = map forwarded_turn ?h"
    using message_sequence [OF sample_request_parts(1) _ sample_request_parts(3,4) [of ?h]
            sample_turns_well_formed [of "length ?h - 8" "[0..<3]"],
            where str_of = no_str and post = times_out]
    by (simp add: sample_request_parts(2) sample_request_def) blast
  then show ?thesis
    unfolding sent by auto
qed

text \<open>
  Claim C10. Every turn of the history window is forwarded, at its own position in the
  \<^verbatim>\<open>contents\<close> member of the JSON body of the call, between the acknowledgment turn and
  the current message: a turn whose role is the string \<^verbatim>\<open>user\<close> goes out in role
  \<^verbatim>\<open>user\<close>, a turn with any other role value, \<^verbatim>\<open>assistant\<close> or not, goes out in role
  \<^verbatim>\<open>model\<close>, with its content unchanged. No turn is dropped or refused for its role.
\<close>

theorem role_mapping:
  assumes "GEMINI_API_KEY g = Some k" and "k \<noteq> []"
    and "map_of obj ''message'' = Some m"
    and "history_list obj = Some h"
    and "\<forall>msg\<in>set (drop (length h - 8) h). well_formed_turn msg"
  shows "\<exists>call rest sent.
           snd (chat g str_of post (Inr (JObj obj))) = [call] \<and>
           call_json call =
             JObj ((''contents'',
                    JArr (JObj [(''role'', JStr ''user''),
                                (''parts'', JArr [JObj [(''text'',
                                   JStr (persona_intro @ KNOWLEDGE_BASE g @ persona_guidelines))]])]
                          # JObj [(''role'', JStr ''model''),
                                  (''parts'', JArr [JObj [(''text'', JStr acknowledgment)]])]
                          # sent
                          @ [JObj [(''role'', JStr ''user''),
                                   (''parts'', JArr [JObj [(''text'', m)]])]]))
                   # rest) \<and>
           length sent = length (drop (length h - 8) h) \<and>
           (\<forall>i < length sent. \<forall>kvs r c.
              drop (length h - 8) h ! i = JObj kvs \<and>
              map_of kvs ''role'' = Some r \<and> map_of kvs ''content'' = Some c \<longrightarrow>
              sent ! i = JObj [(''role'', JStr (if r = JStr ''user'' then ''user'' else ''model'')),
                               (''parts'', JArr [JObj [(''text'', c)]])])"
proof -
  let ?window = "drop (length h - 8) h"
  obtain call where
    "snd (chat g str_of post (Inr (JObj obj))) = [call]"
    and json: "call_json call =
             request_body
               ([turn ''user'' (JStr (system_prompt (KNOWLEDGE_BASE g))),
                 turn ''model'' (JStr acknowledgment)]
                @ map forwarded_turn (drop (length h - 8) h)
                @ [turn ''user'' m])"
    using chat_sends [OF assms, of str_of post] by blast
  moreover have "\<exists>rest. call_json call =
             JObj ((''contents'',
                    JArr (JObj [(''role'', JStr ''user''),
                                (''parts'', JArr [JObj [(''text'',
                                   JStr (persona_intro @ KNOWLEDGE_BASE g @ persona_guidelines))]])]
                          # JObj [(''role'', JStr ''model''),
                                  (''parts'', JArr [JObj [(''text'', JStr acknowledgment)]])]
                          # map forwarded_turn ?window
                          @ [JObj [(''role'', JStr ''user''),
                                   (''parts'', JArr [JObj [(''text'', m)]])]]))
                   # rest)"
    unfolding json by (simp add: request_body_def turn_def system_prompt_def)
  moreover have "length (map forwarded_turn ?window) = length ?window"
    by simp
  moreover have "\<forall>i < length (map forwarded_turn ?window). \<forall>kvs r c.
              ?window ! i = JObj kvs \<and>
              map_of kvs ''role'' = Some r \<and> map_of kvs ''content'' = Some c \<longrightarrow>
              map forwarded_turn ?window ! i =
                JObj [(''role'', JStr (if r = JStr ''user'' then ''user'' else ''model'')),
                      (''parts'', JArr [JObj [(''text'', c)]])]"
    by (simp add: forwarded_turn_def)
  ultimately show ?thesis
    by blast
qed

text \<open>C10 on the roles \<^verbatim>\<open>user\<close>, \<^verbatim>\<open>assistant\<close>, \<^verbatim>\<open>system\<close> and the number 7.\<close>

theorem role_mapping_witness:
  "\<exists>call rest.
     snd (chat sample_config no_str times_out
            (Inr (JObj [(''message'', JStr ''hello''),
                        (''history'', JArr [JObj [(''role'', JStr ''user''), (''content'', JStr ''a'')],
                                            JObj [(''role'', JStr ''assistant''), (''content'', JStr ''b'')],
                                            JObj [(''role'', JStr ''system''), (''content'', JStr ''c'')],
                                            JObj [(''role'', JInt 7), (''content'', JStr ''d'')]])])))
       = [call] \<and>
     call_json call =
       JObj ((''contents'',
              JArr [JObj [(''role'', JStr ''user''),
                          (''parts'', JArr [JObj [(''text'',
                             JStr (persona_intro @ ''Sleep matters.'' @ persona_guidelines))]])],
                    JObj [(''role'', JStr ''model''),
                          (''parts'', JArr [JObj [(''text'', JStr acknowledgment)]])],
                    JObj [(''role'', JStr ''user''), (''parts'', JArr [JObj [(''text'', JStr ''a'')]])],
                    JObj [(''role'', JStr ''model''), (''parts'', JArr [JObj [(''text'', JStr ''b'')]])],
                    JObj [(''role'', JStr ''model''), (''parts'', JArr [JObj [(''text'', JStr ''c'')]])],
                    JObj [(''role'', JStr ''model''), (''parts'', JArr [JObj [(''text'', JStr ''d'')]])],
                    JObj [(''role'', JStr ''user''),
                          (''parts'', JArr [JObj [(''text'', JStr ''hello'')]])]])
             # rest)"
proof -
  let ?h = "[JObj [(''role'', JStr ''user''), (''content'', JStr ''a'')],
             JObj [(''role'', JStr ''assistant''), (''content'', JStr ''b'')],
             JObj [(''role'', JStr ''system''), (''content'', JStr ''c'')],
             JObj [(''role'', JInt 7), (''content'', JStr ''d'')]]"
  have "\<exists>call rest sent.
      snd (chat sample_config no_str times_out
             (Inr (JObj [(''message'', JStr ''hello''), (''history'', JArr ?h)]))) = [call] \<and>
      call_json call =
        JObj ((''contents'',
               JArr (JObj [(''role'', JStr ''user''),
                           (''parts'', JArr [JObj [(''text'',
                              JStr (persona_intro @ ''Sleep matters.'' @ persona_guidelines))]])]
                     # JObj [(''role'', JStr ''model''),
                             (''parts'', JArr [JObj [(''text'', JStr acknowledgment)]])]
                     # sent
                     @ [JObj [(''role'', JStr ''user''),
                              (''parts'', JArr [JObj [(''text'', JStr ''hello'')]])]]))
              # rest) \<and>
      length sent = length ?h \<and>
      (\<forall>i < length sent. \<forall>kvs r c.
              ?h ! i = JObj kvs \<and>
              map_of kvs ''role'' = Some r \<and> map_of kvs ''content'' = Some c \<longrightarrow>
              sent ! i = JObj [(''role'', JStr (if r = JStr ''user'' then ''user'' else ''model'')),
                               (''parts'', JArr [JObj [(''text'', c)]])])"
    using role_mapping [of sample_config "''key-123''"
            "[(''message'', JStr ''hello''), (''history'', JArr ?h)]"
            "JStr ''hello''" ?h no_str times_out]
    by (simp add: sample_config_def history_list_def well_formed_turn_def)
  then obtain call rest sent where
    call: "snd (chat sample_config no_str times_out
             (Inr (JObj [(''message'', JStr ''hello''), (''history'', JArr ?h)]))) = [call]"
    and body: "call_json call =
        JObj ((''contents'',
               JArr (JObj [(''role'', JStr ''user''),
                           (''parts'', JArr [JObj [(''text'',
                              JStr (persona_intro @ ''Sleep matters.'' @ persona_guidelines))]])]
                     # JObj [(''role'', JStr ''model''),
                             (''parts'', JArr [JObj [(''text'', JStr acknowledgment)]])]
                     # sent
                     @ [JObj [(''role'', JStr ''user''),
                              (''parts'', JArr [JObj [(''text'', JStr ''hello'')]])]]))
              # rest)"
    and len: "length sent = length ?h"
    and each: "\<forall>i < length sent. \<forall>kvs r c.
              ?h ! i = JObj kvs \<and>
              map_of kvs ''role'' = Some r \<and> map_of kvs ''content'' = Some c \<longrightarrow>
              sent ! i = JObj [(''role'', JStr (if r = JStr ''user'' then ''user'' else ''model'')),
                               (''parts'', JArr [JObj [(''text'', c)]])]"
    by blast
  have len4: "length sent = 4"
    using len by simp
  have s0: "sent ! 0 = JObj [(''role'', JStr ''user''), (''parts'', JArr [JObj [(''text'', JStr ''a'')]])]"
    using each [rule_format, of 0 "[(''role'', JStr ''user''), (''content'', JStr ''a'')]"
                  "JStr ''user''" "JStr ''a''"] len4 by simp
  have s1: "sent ! 1 = JObj [(''role'', JStr ''model''), (''parts'', JArr [JObj [(''text'', JStr ''b'')]])]"
    using each [rule_format, of 1 "[(''role'', JStr ''assistant''), (''content'', JStr ''b'')]"
                  "JStr ''assistant''" "JStr ''b''"] len4 by simp
  have s2: "sent ! 2 = JObj [(''role'', JStr ''model''), (''parts'', JArr [JObj [(''text'', JStr ''c'')]])]"
    using each [rule_format, of 2 "[(''role'', JStr ''system''), (''content'', JStr ''c'')]"
                  "JStr ''system''" "JStr ''c''"] len4 by simp
  have s3: "sent ! 3 = JObj [(''role'', JStr ''model''), (''parts'', JArr [JObj [(''text'', JStr ''d'')]])]"
    using each [rule_format, of 3 "[(''role'', JInt 7), (''content'', JStr ''d'')]"
                  "JInt 7" "JStr ''d''"] len4 by simp
  have "sent = [sent ! 0, sent ! 1, sent ! 2, sent ! 3]"
    using len4 by (intro nth_equalityI) (auto simp: less_Suc_eq numeral_eq_Suc)
  then have "sent = [JObj [(''role'', JStr ''user''), (''parts'', JArr [JObj [(''text'', JStr ''a'')]])],
             JObj [(''role'', JStr ''model''), (''parts'', JArr [JObj [(''text'', JStr ''b'')]])],
             JObj [(''role'', JStr ''model''), (''parts'', JArr [JObj [(''text'', JStr ''c'')]])],
             JObj [(''role'', JStr ''model''), (''parts'', JArr [JObj [(''text'', JStr ''d'')]])]]"
    unfolding s0 s1 s2 s3 .
  then show ?thesis
    using call body by auto
qed

text \<open>
  Claim C7. When the credential is unset (or set to the empty string), every invocation
  of the chat endpoint is answered with status 500 and the error body naming the missing
  variable, and no call goes out. This holds for every outcome of reading the request
  body and for every behaviour of the network: the check comes before both.
\<close>

theorem no_credential:
  assumes "GEMINI_API_KEY g = None \<or> GEMINI_API_KEY g = Some ''''"
  shows "chat g str_of post get_json =
     (Reply 500 (JObj [(''error'', JStr ''GEMINI_API_KEY environment variable not set'')]), [])"
  using assms by (auto simp: chat_def chat_request_def key_not_set_def)

text \<open>C7 on a well-formed request and on a request without a body.\<close>

theorem no_credential_witness:
  "chat unset_config no_str (answers generated_response) (Inr (sample_request 2)) =
     (Reply 500 (JObj [(''error'', JStr ''GEMINI_API_KEY environment variable not set'')]), [])
   \<and> chat unset_config no_str (answers generated_response) (Inr JNull) =
     (Reply 500 (JObj [(''error'', JStr ''GEMINI_API_KEY environment variable not set'')]), [])"
  using no_credential [of unset_config no_str "answers generated_response" "Inr (sample_request 2)"]
        no_credential [of unset_config no_str "answers generated_response" "Inr JNull"]
  by (simp add: unset_config_def)




section \<open>Results on the answer from upstream\<close>

text \<open>
  Claim C5, as it is worded, fails: the body \<^verbatim>\<open>{"error":"boom"}\<close> of a status 500
  answer is JSON, yet the message of the reply is the raw body text, and nothing taken
  out of the decoded JSON: there is no \<^verbatim>\<open>error.message\<close> member to take.
\<close>

theorem flat_error_body_is_raw:
  \<open>resp_json flat_error_response = Inr (JObj [(''error'', JStr ''boom'')])
   \<and> fst (chat sample_config no_str (answers flat_error_response) (Inr (sample_request 0))) =
       Reply 500 (JObj [(''error'', JStr ''Gemini API Error (Status 500): {"error":"boom"}''),
                        (''status_code'', JInt 500),
                        (''details'', JStr ''{"error":"boom"}'')])
   \<and> Some (error_message flat_error_response) \<noteq> spec_error_message flat_error_response\<close>
proof -
  have decoded: "resp_json flat_error_response = Inr (JObj [(''error'', JStr ''boom'')])"
    by (simp add: flat_error_response_def)
  have raw: \<open>resp_text flat_error_response = ''{"error":"boom"}''\<close>
    by (simp add: flat_error_response_def)
  have code: "resp_status_code flat_error_response = 500"
    by (simp add: flat_error_response_def)
  have msg: \<open>error_message flat_error_response = JStr ''{"error":"boom"}''\<close>
    by (simp add: error_message_def response_json_def decoded raw)
  have spec: "spec_error_message flat_error_response = None"
    by (simp add: spec_error_message_def nested_error_message_def decoded)
  have \<open>fst (chat sample_config no_str (answers flat_error_response) (Inr (sample_request 0))) =
       Reply 500 (JObj [(''error'', JStr ''Gemini API Error (Status 500): {"error":"boom"}''),
                        (''status_code'', JInt 500),
                        (''details'', JStr ''{"error":"boom"}'')])\<close>
    using chat_reply_after_call [OF chat_calls [OF sample_request_ready],
            of no_str "answers flat_error_response" 0]
    by (simp add: answers_def chat_response_def msg raw code format_value_def
          string_of_nat.simps)
  then show ?thesis
    using decoded spec by simp
qed

text \<open>
  Claim C5, amended. When the upstream status is not 200 the reply is status 500 with
  the error \<^verbatim>\<open>Gemini API Error (Status n): message\<close>, the upstream status and the raw
  body as details. The message is the member \<^verbatim>\<open>error.message\<close> of the decoded body when
  the body is a JSON object with an object member \<^verbatim>\<open>error\<close> that has a member
  \<^verbatim>\<open>message\<close>; in every other case (the body is not JSON, or it is JSON without that
  nested member) it is the raw body text.
\<close>

theorem upstream_error:
  assumes "snd (chat g str_of post get_json) = [call]"
    and "post call = Inr response"
    and "resp_status_code response \<noteq> 200"
  shows "fst (chat g str_of post get_json) =
     Reply 500
       (JObj [(''error'',
                 JStr (''Gemini API Error (Status '' @ string_of_nat (resp_status_code response)
                       @ ''): '' @
                       format_value str_of
                         (case resp_json response of
                            Inl d \<Rightarrow> JStr (resp_text response)
                          | Inr error_json \<Rightarrow>
                              (case nested_error_message error_json of
                                 Some m \<Rightarrow> m
                               | None \<Rightarrow> JStr (resp_text response))))),
              (''status_code'', JInt (int (resp_status_code response))),
              (''details'', JStr (resp_text response))])"
  using chat_reply_after_call [OF assms(1)] assms(2,3)
  by (simp add: chat_response_def error_message_eq)

text \<open>The amended C5 on status 500 with the body \<^verbatim>\<open>{"error":{"message":"boom"}}\<close>:
  the reply carries \<^verbatim>\<open>boom\<close>.\<close>

theorem upstream_error_witness:
  \<open>fst (chat sample_config no_str (answers boom_response) (Inr (sample_request 0))) =
     Reply 500 (JObj [(''error'', JStr ''Gemini API Error (Status 500): boom''),
                      (''status_code'', JInt 500),
                      (''details'', JStr ''{"error":{"message":"boom"}}'')])\<close>
proof -
  obtain call where
    call: "snd (chat sample_config no_str (answers boom_response) (Inr (sample_request 0))) = [call]"
    using chat_calls [OF sample_request_ready] by blast
  have "answers boom_response call = Inr boom_response"
    by (simp add: answers_def)
  moreover have "resp_status_code boom_response \<noteq> 200"
    by (simp add: boom_response_def)
  ultimately show ?thesis
    using upstream_error [OF call, of boom_response]
    by (simp add: boom_response_def nested_error_message_def format_value_def string_of_nat.simps)
qed

text \<open>
  Claim C6. When the upstream status is 200 and the decoded body has a first candidate
  whose content has a first part with a text, the reply is status 200 with that text as
  it is. When the body has no such text the reply is status 500 with an error; in
  particular a body without candidates, a first candidate without content, and a
  content without parts each give the error \<^verbatim>\<open>No content generated by Gemini API\<close>.
\<close>

theorem first_candidate_text:
  assumes "snd (chat g str_of post get_json) = [call]"
    and "post call = Inr response"
    and "resp_status_code response = 200"
  shows "(\<forall>j t. resp_json response = Inr j \<and> first_part_text j = Some t \<longrightarrow>
            fst (chat g str_of post get_json) =
              Reply 200 (JObj [(''response'', t), (''status'', JStr ''success'')]))
       \<and> ((\<forall>j. resp_json response = Inr j \<longrightarrow> first_part_text j = None) \<longrightarrow>
            status (fst (chat g str_of post get_json)) = 500 \<and>
            (\<exists>msg rest. body (fst (chat g str_of post get_json)) =
                          JObj ((''error'', JStr msg) # rest)))
       \<and> (\<forall>obj. resp_json response = Inr (JObj obj) \<and> falsy_member obj ''candidates'' \<longrightarrow>
            fst (chat g str_of post get_json) =
              Reply 500 (JObj [(''error'', JStr ''No content generated by Gemini API''),
                               (''details'', JStr (str_of (JObj obj)))]))
       \<and> (\<forall>obj candidate more. resp_json response = Inr (JObj obj) \<and>
            map_of obj ''candidates'' = Some (JArr (JObj candidate # more)) \<and>
            falsy_member candidate ''content'' \<longrightarrow>
            fst (chat g str_of post get_json) =
              Reply 500 (JObj [(''error'', JStr ''No content generated by Gemini API''),
                               (''details'', JStr (str_of (JObj obj)))]))
       \<and> (\<forall>obj candidate more content. resp_json response = Inr (JObj obj) \<and>
            map_of obj ''candidates'' = Some (JArr (JObj candidate # more)) \<and>
            map_of candidate ''content'' = Some (JObj content) \<and>
            falsy_member content ''parts'' \<longrightarrow>
            fst (chat g str_of post get_json) =
              Reply 500 (JObj [(''error'', JStr ''No content generated by Gemini API''),
                               (''details'', JStr (str_of (JObj obj)))]))"
proof -
  let ?reply = "fst (chat g str_of post get_json)"
  have reply: "?reply = (case chat_response str_of response of
                           Inl e \<Rightarrow> chat_except e | Inr r \<Rightarrow> r)"
    using chat_reply_after_call [OF assms(1)] assms(2) by simp
  have generated: "?reply = Reply 200 (JObj [(''response'', t), (''status'', JStr ''success'')])"
    if "resp_json response = Inr j" and "first_part_text j = Some t" for j t
    using chat_response_generated [OF assms(3) that] reply by simp
  have failed: "status ?reply = 500 \<and> (\<exists>msg rest. body ?reply = JObj ((''error'', JStr msg) # rest))"
    if absent: "\<forall>j. resp_json response = Inr j \<longrightarrow> first_part_text j = None"
  proof (cases "chat_response str_of response")
    case (Inl e)
    then have "\<forall>m. e \<noteq> Timeout m"
      using chat_response_no_timeout [of str_of response] by auto
    then show ?thesis
      using chat_except_500 [of e] reply Inl by auto
  next
    case (Inr x)
    then have "\<exists>j. x = no_content_generated str_of j"
      using chat_response_Inr_200 [OF assms(3) Inr] absent by auto
    then show ?thesis
      using reply Inr by (auto simp: no_content_generated_def)
  qed
  have no_content: "?reply = Reply 500 (JObj [(''error'', JStr ''No content generated by Gemini API''),
                               (''details'', JStr (str_of j))])"
    if "resp_json response = Inr j" and "has_content j = Inr False" for j
    using that reply assms(3)
    by (simp add: chat_response_def response_json_def no_content_generated_def)
  have c1: "has_content (JObj obj) = Inr False" if "falsy_member obj ''candidates''" for obj
    using that
    by (cases "map_of obj ''candidates''") (simp_all add: has_content_def falsy_member_def)
  have c2: "has_content (JObj obj) = Inr False"
    if "map_of obj ''candidates'' = Some (JArr (JObj candidate # more))"
      and "falsy_member candidate ''content''" for obj candidate more
    using that
    by (cases "map_of candidate ''content''") (simp_all add: has_content_def falsy_member_def)
  have c3: "has_content (JObj obj) = Inr False"
    if "map_of obj ''candidates'' = Some (JArr (JObj candidate # more))"
      and "map_of candidate ''content'' = Some (JObj content)"
      and "falsy_member content ''parts''" for obj candidate more content
    using that
    by (cases "map_of content ''parts''"; cases "content = []")
       (simp_all add: has_content_def falsy_member_def)
  have first: "\<forall>j t. resp_json response = Inr j \<and> first_part_text j = Some t \<longrightarrow>
            ?reply = Reply 200 (JObj [(''response'', t), (''status'', JStr ''success'')])"
    using generated by blast
  have second: "(\<forall>j. resp_json response = Inr j \<longrightarrow> first_part_text j = None) \<longrightarrow>
            status ?reply = 500 \<and>
            (\<exists>msg rest. body ?reply = JObj ((''error'', JStr msg) # rest))"
    using failed by blast
  have third: "\<forall>obj. resp_json response = Inr (JObj obj) \<and> falsy_member obj ''candidates'' \<longrightarrow>
            ?reply = Reply 500 (JObj [(''error'', JStr ''No content generated by Gemini API''),
                               (''details'', JStr (str_of (JObj obj)))])"
    using no_content c1 by blast
  have fourth: "\<forall>obj candidate more. resp_json response = Inr (JObj obj) \<and>
            map_of obj ''candidates'' = Some (JArr (JObj candidate # more)) \<and>
            falsy_member candidate ''content'' \<longrightarrow>
            ?reply = Reply 500 (JObj [(''error'', JStr ''No content generated by Gemini API''),
                               (''details'', JStr (str_of (JObj obj)))])"
    using no_content c2 by blast
  have fifth: "\<forall>obj candidate more content. resp_json response = Inr (JObj obj) \<and>
            map_of obj ''candidates'' = Some (JArr (JObj candidate # more)) \<and>
            map_of candidate ''content'' = Some (JObj content) \<and>
            falsy_member content ''parts'' \<longrightarrow>
            ?reply = Reply 500 (JObj [(''error'', JStr ''No content generated by Gemini API''),
                               (''details'', JStr (str_of (JObj obj)))])"
    using no_content c3 by blast
  show ?thesis
    using first second third fourth fifth by (intro conjI)
qed

text \<open>C6 on a body with one candidate and on a body with an empty list of
  candidates.\<close>

theorem first_candidate_text_witness:
  "fst (chat sample_config no_str (answers generated_response) (Inr (sample_request 0))) =
     Reply 200 (JObj [(''response'', JStr '' Hi! ''), (''status'', JStr ''success'')])
   \<and> fst (chat sample_config no_str (answers no_candidates_response) (Inr (sample_request 0))) =
     Reply 500 (JObj [(''error'', JStr ''No content generated by Gemini API''),
                      (''details'', JStr [])])"
proof -
  obtain call where
    call: "snd (chat sample_config no_str (answers generated_response) (Inr (sample_request 0))) = [call]"
    using chat_calls [OF sample_request_ready] by blast
  have "answers generated_response call = Inr generated_response"
    by (simp add: answers_def)
  moreover have "resp_status_code generated_response = 200"
    by (simp add: generated_response_def)
  moreover have "first_part_text
      (JObj [(''candidates'',
        JArr [JObj [(''content'', JObj [(''parts'', JArr [JObj [(''text'', JStr '' Hi! '')]])])]])]) =
      Some (JStr '' Hi! '')"
    by (simp add: first_part_text_def)
  ultimately have generated:
    "fst (chat sample_config no_str (answers generated_response) (Inr (sample_request 0))) =
       Reply 200 (JObj [(''response'', JStr '' Hi! ''), (''status'', JStr ''success'')])"
    using first_candidate_text [OF call, of generated_response]
    by (simp add: generated_response_def)
  obtain call' where
    call': "snd (chat sample_config no_str (answers no_candidates_response)
                  (Inr (sample_request 0))) = [call']"
    using chat_calls [OF sample_request_ready] by blast
  have "answers no_candidates_response call' = Inr no_candidates_response"
    by (simp add: answers_def)
  moreover have "resp_status_code no_candidates_response = 200"
    by (simp add: no_candidates_response_def)
  moreover have "falsy_member [(''candidates'', JArr [])] ''candidates''"
    by (simp add: falsy_member_def)
  ultimately have "fst (chat sample_config no_str (answers no_candidates_response)
                         (Inr (sample_request 0))) =
     Reply 500 (JObj [(''error'', JStr ''No content generated by Gemini API''),
                      (''details'', JStr [])])"
    using first_candidate_text [OF call', of no_candidates_response]
    by (simp add: no_candidates_response_def no_str_def)
  with generated show ?thesis by simp
qed

end
